theory Spec2Isabelle
  imports Complex_Main
begin

section \<open>Python built-ins used by the services\<close>

text \<open>
  Python strings are modelled as \<open>string\<close> (ASCII text), Python floats as \<open>real\<close>
  (exact arithmetic: no rounding error, no \<open>inf\<close>, no \<open>nan\<close>), Python ints as \<open>int\<close>
  or \<open>nat\<close>.  Every exception the modelled code can raise is a value of \<open>exn\<close>; a
  fallible function returns \<open>exn + 'a\<close> with \<open>Inl\<close> for the raised exception.
\<close>

datatype exn =
    KeyError string
  | IndexError
  | ValueError string
  | ValidationError string
  | RuntimeError string
  | AttributeError string
  | GenericException string

text \<open>\<open>s.startswith(p)\<close>\<close>

fun startswith :: "string \<Rightarrow> string \<Rightarrow> bool" where
  "startswith s [] = True"
| "startswith [] (p # ps) = False"
| "startswith (c # cs) (p # ps) = (c = p \<and> startswith cs ps)"

text \<open>\<open>sub in s\<close>\<close>

fun str_contains :: "string \<Rightarrow> string \<Rightarrow> bool" where
  "str_contains [] sub = (sub = [])"
| "str_contains (c # cs) sub = (startswith (c # cs) sub \<or> str_contains cs sub)"

text \<open>
  \<open>s.split(sep)\<close> for a non-empty separator: a left-to-right scan for non-overlapping
  occurrences.  \<open>cur\<close> holds the current piece reversed, \<open>skip\<close> the number of
  characters of a matched separator still to be dropped.  Every call site of the modelled
  code passes a non-empty literal separator (Python raises \<open>ValueError\<close> on an empty one).
\<close>

fun split_from :: "string \<Rightarrow> nat \<Rightarrow> string \<Rightarrow> string \<Rightarrow> string list" where
  "split_from sep skip cur [] = [rev cur]"
| "split_from sep skip cur (c # cs) =
     (if 0 < skip then split_from sep (skip - 1) cur cs
      else if startswith (c # cs) sep then rev cur # split_from sep (length sep - 1) [] cs
      else split_from sep 0 (c # cur) cs)"

definition split :: "string \<Rightarrow> string \<Rightarrow> string list" where
  "split s sep = split_from sep 0 [] s"

text \<open>\<open>xs[i]\<close> for \<open>i \<ge> 0\<close>: \<open>IndexError\<close> out of range.\<close>

fun index :: "'a list \<Rightarrow> nat \<Rightarrow> exn + 'a" where
  "index [] i = Inl IndexError"
| "index (x # xs) 0 = Inr x"
| "index (x # xs) (Suc i) = index xs i"

text \<open>\<open>sep.join(xs)\<close>\<close>

fun join :: "string \<Rightarrow> string list \<Rightarrow> string" where
  "join sep [] = []"
| "join sep [x] = x"
| "join sep (x # y # ys) = x @ sep @ join sep (y # ys)"

text \<open>Whitespace as \<open>str.split()\<close> and \<open>float()\<close> see it (ASCII part).\<close>

definition is_space :: "char \<Rightarrow> bool" where
  "is_space c = (c \<in> set [CHR '' '', CHR 0x09, CHR 0x0A, CHR 0x0B, CHR 0x0C, CHR 0x0D])"

text \<open>\<open>s.split()\<close>: pieces between runs of whitespace, no empty piece.\<close>

fun split_ws_from :: "string \<Rightarrow> string \<Rightarrow> string list" where
  "split_ws_from cur [] = (if cur = [] then [] else [rev cur])"
| "split_ws_from cur (c # cs) =
     (if is_space c then (if cur = [] then split_ws_from [] cs else rev cur # split_ws_from [] cs)
      else split_ws_from (c # cur) cs)"

definition split_ws :: "string \<Rightarrow> string list" where
  "split_ws s = split_ws_from [] s"

text \<open>\<open>s.lower()\<close> on ASCII letters; other characters are kept.\<close>

definition lower_char :: "char \<Rightarrow> char" where
  "lower_char c =
     (case map_of (zip ''ABCDEFGHIJKLMNOPQRSTUVWXYZ'' ''abcdefghijklmnopqrstuvwxyz'') c of
        Some l \<Rightarrow> l
      | None \<Rightarrow> c)"

definition lower :: "string \<Rightarrow> string" where
  "lower s = map lower_char s"

text \<open>Decimal digits, \<open>str(n)\<close> for a natural number.\<close>

definition digit_char :: "nat \<Rightarrow> char" where
  "digit_char d =
     (if d = 0 then CHR ''0'' else if d = 1 then CHR ''1'' else if d = 2 then CHR ''2''
      else if d = 3 then CHR ''3'' else if d = 4 then CHR ''4'' else if d = 5 then CHR ''5''
      else if d = 6 then CHR ''6'' else if d = 7 then CHR ''7'' else if d = 8 then CHR ''8''
      else CHR ''9'')"

definition digit_val :: "char \<Rightarrow> nat option" where
  "digit_val c =
     map_of [(CHR ''0'', 0), (CHR ''1'', 1), (CHR ''2'', 2), (CHR ''3'', 3), (CHR ''4'', 4),
             (CHR ''5'', 5), (CHR ''6'', 6), (CHR ''7'', 7), (CHR ''8'', 8), (CHR ''9'', 9)] c"

fun str_nat :: "nat \<Rightarrow> string" where
  "str_nat n = (if n < 10 then [digit_char n] else str_nat (n div 10) @ [digit_char (n mod 10)])"

text \<open>\<open>str(i)\<close> for an int.\<close>

definition str_int :: "int \<Rightarrow> string" where
  "str_int i = (if i < 0 then ''-'' @ str_nat (nat (- i)) else str_nat (nat i))"

text \<open>
  The format specification \<open>:.2f\<close>: the value rounded to the nearest hundredth, ties to
  the even hundredth, sign first, two digits after the point.
\<close>

definition round_half_even :: "real \<Rightarrow> int" where
  "round_half_even x =
     (let f = \<lfloor>x\<rfloor>; d = x - of_int f
      in if d < 1 / 2 then f else if 1 / 2 < d then f + 1 else if even f then f else f + 1)"

definition format_2f :: "real \<Rightarrow> string" where
  "format_2f x =
     (let h = nat \<bar>round_half_even (x * 100)\<bar>
      in (if x < 0 then ''-'' else []) @ str_nat (h div 100) @ ''.'' @
         [digit_char ((h mod 100) div 10), digit_char (h mod 10)])"

text \<open>
  \<open>float(s)\<close> on decimal literals: surrounding whitespace is stripped, then an optional
  sign, then digits with an optional fractional part (\<open>12\<close>, \<open>12.\<close>, \<open>12.5\<close>, \<open>.5\<close>).
  \<open>None\<close> is Python's \<open>ValueError\<close>.  Exponents, underscores, \<open>inf\<close> and \<open>nan\<close> are not
  part of this model of the built-in.
\<close>

fun digits_value :: "nat \<Rightarrow> string \<Rightarrow> nat option" where
  "digits_value acc [] = Some acc"
| "digits_value acc (c # cs) =
     (case digit_val c of None \<Rightarrow> None | Some d \<Rightarrow> digits_value (10 * acc + d) cs)"

definition strip :: "string \<Rightarrow> string" where
  "strip s = rev (dropWhile is_space (rev (dropWhile is_space s)))"

definition float_unsigned :: "string \<Rightarrow> real option" where
  "float_unsigned s =
     (let ip = takeWhile (\<lambda>c. c \<noteq> CHR ''.'') s;
          fp = drop 1 (dropWhile (\<lambda>c. c \<noteq> CHR ''.'') s)
      in if ip = [] \<and> fp = [] then None
         else case (digits_value 0 ip, digits_value 0 fp) of
                (Some i, Some f) \<Rightarrow> Some (real i + real f / 10 ^ length fp)
              | _ \<Rightarrow> None)"

definition float :: "string \<Rightarrow> real option" where
  "float s =
     (case strip s of
        [] \<Rightarrow> None
      | c # cs \<Rightarrow>
          if c = CHR ''-'' then map_option uminus (float_unsigned cs)
          else if c = CHR ''+'' then float_unsigned cs
          else float_unsigned (c # cs))"

section \<open>Schemas (\<^verbatim>\<open>backend/models/schemas.py\<close>)\<close>

record EnrichmentSuggestion =
  missing_topic :: string
  suggested_action :: string
  priority :: string

record AnswerResponse =
  query_id :: "string option"
  answer :: string
  confidence :: real
  sources_used :: "string list"
  is_complete :: bool
  missing_information :: "string list option"
  enrichment_suggestions :: "EnrichmentSuggestion list option"
  reasoning :: string

text \<open>
  The dict a provider returns.  A field is \<open>None\<close> when the key is absent (for the two
  keys read with \<open>.get\<close>: absent or \<open>null\<close>); a value that is present has the type the
  schema names.
\<close>

record raw_suggestion =
  s_missing_topic :: "string option"
  s_suggested_action :: "string option"
  s_priority :: "string option"

record raw_result =
  r_answer :: "string option"
  r_confidence :: "real option"
  r_sources_used :: "string list option"
  r_is_complete :: "bool option"
  r_missing_information :: "string list option"
  r_enrichment_suggestions :: "raw_suggestion list option"
  r_reasoning :: "string option"

text \<open>
  \<open>EnrichmentSuggestion(**suggestion)\<close>: the three fields are required and \<open>priority\<close>
  must match \<open>^(high|medium|low)$\<close>.
\<close>

definition new_EnrichmentSuggestion :: "raw_suggestion \<Rightarrow> exn + EnrichmentSuggestion" where
  "new_EnrichmentSuggestion s =
     (case (s_missing_topic s, s_suggested_action s, s_priority s) of
        (Some t, Some a, Some p) \<Rightarrow>
          if p = ''high'' \<or> p = ''medium'' \<or> p = ''low''
          then Inr \<lparr>missing_topic = t, suggested_action = a, priority = p\<rparr>
          else Inl (ValidationError ''EnrichmentSuggestion'')
      | _ \<Rightarrow> Inl (ValidationError ''EnrichmentSuggestion''))"

text \<open>The list comprehension over the suggestions: the first failure is raised.\<close>

fun new_EnrichmentSuggestions :: "raw_suggestion list \<Rightarrow> exn + EnrichmentSuggestion list" where
  "new_EnrichmentSuggestions [] = Inr []"
| "new_EnrichmentSuggestions (s # ss) =
     (case new_EnrichmentSuggestion s of
        Inl e \<Rightarrow> Inl e
      | Inr v \<Rightarrow>
          (case new_EnrichmentSuggestions ss of Inl e \<Rightarrow> Inl e | Inr vs \<Rightarrow> Inr (v # vs)))"

text \<open>\<open>AnswerResponse(...)\<close>: \<open>confidence\<close> is validated with \<open>ge=0, le=1\<close>.\<close>

definition new_AnswerResponse :: "AnswerResponse \<Rightarrow> exn + AnswerResponse" where
  "new_AnswerResponse a =
     (if 0 \<le> confidence a \<and> confidence a \<le> 1 then Inr a
      else Inl (ValidationError ''AnswerResponse''))"

section \<open>The rule-based provider (\<^verbatim>\<open>backend/providers/fallback_provider.py\<close>)\<close>

abbreviation nl :: char where
  "nl \<equiv> CHR 0x0A"

abbreviation apostrophe :: char where
  "apostrophe \<equiv> CHR 0x27"

text \<open>
  The body of the loop over the lines of the context.  The state is
  \<open>(sources, avg_relevance, relevance_count)\<close>.  The bare \<open>except: pass\<close> keeps what the
  iteration had already changed when the exception was raised: a source appended before a
  failing \<open>float\<close> stays appended.  \<open>split\<close> never returns the empty list, so \<open>[0]\<close> is
  \<open>hd\<close> and \<open>[-1]\<close> is \<open>last\<close>.
\<close>

definition scan_line :: "string \<Rightarrow> string list \<times> real \<times> nat \<Rightarrow> string list \<times> real \<times> nat" where
  "scan_line line st =
     (case st of (sources, avg_relevance, relevance_count) \<Rightarrow>
        if startswith line ''[Source'' then
          (case index (split line '': '') 1 of
             Inl e \<Rightarrow> st
           | Inr p \<Rightarrow>
               let source = hd (split p '' - '');
                   sources' = (if source \<in> set sources then sources else sources @ [source])
               in if str_contains line ''Relevance:'' then
                    (case index (split line ''Relevance: '') 1 of
                       Inl e \<Rightarrow> (sources', avg_relevance, relevance_count)
                     | Inr r \<Rightarrow>
                         (case float (hd (split r '')'')) of
                            None \<Rightarrow> (sources', avg_relevance, relevance_count)
                          | Some v \<Rightarrow> (sources', avg_relevance + v, relevance_count + 1)))
                  else (sources', avg_relevance, relevance_count))
        else st)"

definition no_context_result :: "string \<Rightarrow> raw_result" where
  "no_context_result query =
     \<lparr>r_answer = Some (''I couldn'' @ [apostrophe] @
          ''t find relevant information in the knowledge base to answer: '' @ [apostrophe] @
          query @ [apostrophe] @ ''. Please upload documents related to this topic.''),
      r_confidence = Some (1 / 10),
      r_sources_used = Some [],
      r_is_complete = Some False,
      r_missing_information = Some [''Information about: '' @ query],
      r_enrichment_suggestions = Some
        [\<lparr>s_missing_topic = Some query,
          s_suggested_action = Some (''Upload documents containing information about '' @ query),
          s_priority = Some ''high''\<rparr>],
      r_reasoning = Some ''No relevant documents found in the knowledge base.''\<rparr>"

definition context_result :: "string \<Rightarrow> string \<Rightarrow> raw_result" where
  "context_result context_text query =
     (case fold scan_line (split context_text [nl]) ([], 0, 0) of
        (sources, relevance_sum, relevance_count) \<Rightarrow>
          let avg_relevance = (if 0 < relevance_count then relevance_sum / real relevance_count else relevance_sum);
              confidence = min avg_relevance (65 / 100);
              is_complete = (1 / 2 < confidence);
              answer =
                (if 4 / 10 < confidence
                 then ''Based on the available documents:'' @ [nl, nl] @ take 800 context_text @
                      (if 800 < length context_text
                       then ''...'' @ [nl, nl] @ ''(More information available in source documents)''
                       else [])
                 else ''I found some information, but it may not be highly relevant to: '' @
                      [apostrophe] @ query @ [apostrophe]);
              missing_info =
                (if \<not> is_complete then [''More comprehensive information on this topic''] else []);
              suggestions =
                (if \<not> is_complete
                 then [\<lparr>s_missing_topic = Some query,
                        s_suggested_action =
                          Some ''Upload more detailed documents about this specific topic'',
                        s_priority = Some ''medium''\<rparr>]
                 else [])
          in \<lparr>r_answer = Some answer,
              r_confidence = Some confidence,
              r_sources_used = Some sources,
              r_is_complete = Some is_complete,
              r_missing_information = (if missing_info \<noteq> [] then Some missing_info else None),
              r_enrichment_suggestions = (if suggestions \<noteq> [] then Some suggestions else None),
              r_reasoning = Some (''Rule-based response (relevance: '' @ format_2f avg_relevance @
                ''). Configure an LLM provider for better results.'')\<rparr>)"

text \<open>\<open>FallbackProvider.generate_completion\<close>; the system prompt is not read.\<close>

definition context_text_of :: "string \<Rightarrow> string" where
  "context_text_of user_message =
     hd (split (last (split user_message (''Context:'' @ [nl]))) ([nl, nl] @ ''Question:''))"

definition query_of :: "string \<Rightarrow> string" where
  "query_of user_message = last (split user_message ''Question: '')"

definition FallbackProvider_generate_completion :: "string \<Rightarrow> string \<Rightarrow> raw_result" where
  "FallbackProvider_generate_completion system_prompt user_message =
     (let context_text = context_text_of user_message;
          query = query_of user_message
      in if str_contains context_text ''No relevant context found''
         then no_context_result query
         else context_result context_text query)"

section \<open>Answer generation (\<^verbatim>\<open>backend/services/llm_service.py\<close>)\<close>

text \<open>
  A context entry as \<open>EmbeddingService.search\<close> builds it.  The provider held by the
  service is the rule-based one or a remote one; a remote provider's call is an effect
  outside the program, so it is given as the function from the two prompts to what the
  call does: raise, or return the dict decoded from the reply.
\<close>

record search_hit =
  content :: string
  source :: string
  relevance_score :: real
  chunk_id :: string
  doc_id :: string
  page :: string

datatype provider =
    RemoteProvider "string \<Rightarrow> string \<Rightarrow> exn + raw_result"
  | FallbackProvider

fun generate_completion :: "provider \<Rightarrow> string \<Rightarrow> string \<Rightarrow> exn + raw_result" where
  "generate_completion (RemoteProvider call) system_prompt user_message =
     call system_prompt user_message"
| "generate_completion FallbackProvider system_prompt user_message =
     Inr (FallbackProvider_generate_completion system_prompt user_message)"

text \<open>\<open>_format_context\<close>: \<open>enumerate(context, 1)\<close> is the counter \<open>idx\<close>.\<close>

fun format_entries :: "nat \<Rightarrow> search_hit list \<Rightarrow> string list" where
  "format_entries idx [] = []"
| "format_entries idx (ctx # rest) =
     (''[Source '' @ str_nat idx @ '': '' @ source ctx @ '' - Page '' @ page ctx @
      '' (Relevance: '' @ format_2f (relevance_score ctx) @ '')]'' @ [nl] @ content ctx @ [nl])
     # format_entries (idx + 1) rest"

definition format_context :: "search_hit list \<Rightarrow> string" where
  "format_context hits =
     (if hits = [] then ''No relevant context found in the knowledge base.''
      else join [nl] (format_entries 1 hits))"

definition user_message_of :: "string \<Rightarrow> search_hit list \<Rightarrow> string" where
  "user_message_of query hits =
     ''Context:'' @ [nl] @ format_context hits @ [nl, nl] @ ''Question: '' @ query"

text \<open>
  The second half of \<open>generate_answer\<close>: the suggestions are parsed first, then the
  required keys are read in the order of the constructor's arguments (\<open>KeyError\<close> on the
  first absent one), then the model is validated.  \<open>uuid4\<close> is the fresh identifier.
\<close>

definition build_response :: "string \<Rightarrow> raw_result \<Rightarrow> exn + AnswerResponse" where
  "build_response uuid4 result =
     (case (case r_enrichment_suggestions result of
              None \<Rightarrow> Inr None
            | Some ss \<Rightarrow>
                if ss = [] then Inr None
                else (case new_EnrichmentSuggestions ss of
                        Inl e \<Rightarrow> Inl e
                      | Inr vs \<Rightarrow> Inr (Some vs))) of
        Inl e \<Rightarrow> Inl e
      | Inr suggestions \<Rightarrow>
          (case r_answer result of
             None \<Rightarrow> Inl (KeyError ''answer'')
           | Some a \<Rightarrow>
          (case r_confidence result of
             None \<Rightarrow> Inl (KeyError ''confidence'')
           | Some c \<Rightarrow>
          (case r_sources_used result of
             None \<Rightarrow> Inl (KeyError ''sources_used'')
           | Some srcs \<Rightarrow>
          (case r_is_complete result of
             None \<Rightarrow> Inl (KeyError ''is_complete'')
           | Some ic \<Rightarrow>
          (case r_reasoning result of
             None \<Rightarrow> Inl (KeyError ''reasoning'')
           | Some r \<Rightarrow>
               new_AnswerResponse
                 \<lparr>query_id = Some uuid4,
                  answer = a,
                  confidence = c,
                  sources_used = srcs,
                  is_complete = ic,
                  missing_information = r_missing_information result,
                  enrichment_suggestions = suggestions,
                  reasoning = r\<rparr>))))))"

text \<open>
  The first half of \<open>generate_answer\<close>: the call of the active provider inside
  \<open>try\<close>, and the rule-based provider in the \<open>except Exception\<close> branch.
\<close>

definition provider_result :: "provider \<Rightarrow> string \<Rightarrow> string \<Rightarrow> raw_result" where
  "provider_result active SYSTEM_PROMPT user_message =
     (case generate_completion active SYSTEM_PROMPT user_message of
        Inr r \<Rightarrow> r
      | Inl e \<Rightarrow> FallbackProvider_generate_completion SYSTEM_PROMPT user_message)"

definition generate_answer ::
  "provider \<Rightarrow> string \<Rightarrow> string \<Rightarrow> string \<Rightarrow> search_hit list \<Rightarrow> exn + AnswerResponse" where
  "generate_answer active SYSTEM_PROMPT uuid4 query hits =
     build_response uuid4 (provider_result active SYSTEM_PROMPT (user_message_of query hits))"

section \<open>Embedding and retrieval (\<^verbatim>\<open>backend/services/embedding_service.py\<close>)\<close>

text \<open>
  The fields of the service that \<open>_generate_embedding\<close> reads and writes:
  \<open>use_openai\<close>, whether \<open>openai_client\<close> is set, and whether the attribute
  \<open>embedding_model\<close> exists.  What the outside world does during one call is a
  \<open>call_env\<close>: the reply of the remote embedding endpoint, whether loading the local
  model raises (\<open>_init_sentence_transformers\<close> re-raises), and the result of the local
  model's \<open>encode\<close>.
\<close>

record embedder =
  use_openai :: bool
  openai_client :: bool
  has_embedding_model :: bool

record call_env =
  remote_reply :: "exn + real list"
  local_init :: "exn option"
  local_encode :: "exn + real list"

text \<open>
  \<open>_generate_embedding\<close>: the result or the exception, the service afterwards, and
  whether the call invoked the remote endpoint.
\<close>

definition generate_embedding :: "call_env \<Rightarrow> embedder \<Rightarrow> (exn + real list) \<times> embedder \<times> bool" where
  "generate_embedding env svc =
     (if use_openai svc \<and> openai_client svc then
        (case remote_reply env of
           Inr v \<Rightarrow> (Inr v, svc, True)
         | Inl e \<Rightarrow>
             if \<not> has_embedding_model svc then
               (case local_init env of
                  Some e' \<Rightarrow> (Inl e', svc, True)
                | None \<Rightarrow>
                    (local_encode env,
                     svc\<lparr>has_embedding_model := True, use_openai := False\<rparr>, True))
             else (local_encode env, svc\<lparr>use_openai := False\<rparr>, True))
      else if has_embedding_model svc then (local_encode env, svc, False)
      else (Inl (AttributeError ''embedding_model''), svc, False))"

text \<open>
  \<open>__init__\<close>, as far as the embedding strategy goes: the remote strategy is chosen when
  the key starts with \<open>skt-\<close> and the test call succeeds; otherwise the local model is
  loaded, and a failure to load it fails the constructor.
\<close>

definition new_EmbeddingService :: "string option \<Rightarrow> call_env \<Rightarrow> exn + embedder" where
  "new_EmbeddingService openai_key env =
     (let load_local = (\<lambda>client.
            case local_init env of
              Some e \<Rightarrow> Inl e
            | None \<Rightarrow> Inr \<lparr>use_openai = False, openai_client = client,
                             has_embedding_model = True\<rparr>)
      in case openai_key of
           None \<Rightarrow> load_local False
         | Some k \<Rightarrow>
             if startswith k ''skt-'' then
               (case remote_reply env of
                  Inr v \<Rightarrow> Inr \<lparr>use_openai = True, openai_client = True,
                                 has_embedding_model = False\<rparr>
                | Inl e \<Rightarrow> load_local True)
             else load_local False)"

text \<open>A sequence of embedding calls on one instance, one environment per call.\<close>

fun embedding_calls :: "call_env list \<Rightarrow> embedder \<Rightarrow> ((exn + real list) \<times> bool) list" where
  "embedding_calls [] svc = []"
| "embedding_calls (env # envs) svc =
     (case generate_embedding env svc of
        (res, svc', invoked) \<Rightarrow> (res, invoked) # embedding_calls envs svc')"

text \<open>What \<open>collection.query\<close> returns: one inner list per query embedding.\<close>

record query_result =
  documents :: "string list list"
  metadatas :: "(string \<rightharpoonup> string) list list"
  distances :: "real list list"

definition dict_get :: "(string \<rightharpoonup> string) \<Rightarrow> string \<Rightarrow> string \<Rightarrow> string" where
  "dict_get d k dflt = (case d k of Some v \<Rightarrow> v | None \<Rightarrow> dflt)"

definition make_hit :: "string \<times> (string \<rightharpoonup> string) \<times> real \<Rightarrow> search_hit" where
  "make_hit t =
     (case t of (doc, metadata, distance) \<Rightarrow>
        let similarity = 1 - distance / 2
        in \<lparr>content = doc,
            source = dict_get metadata ''source'' ''unknown'',
            relevance_score = similarity,
            chunk_id = dict_get metadata ''chunk_id'' ''unknown'',
            doc_id = dict_get metadata ''doc_id'' ''unknown'',
            page = dict_get metadata ''page'' ''unknown''\<rparr>)"

text \<open>The formatting half of \<open>search\<close>; \<open>zip\<close> stops at the shortest list.\<close>

definition format_results :: "query_result \<Rightarrow> exn + search_hit list" where
  "format_results results =
     (if documents results \<noteq> [] \<and> 0 < length (hd (documents results)) then
        (case index (metadatas results) 0 of
           Inl e \<Rightarrow> Inl e
         | Inr ms \<Rightarrow>
             (case index (distances results) 0 of
                Inl e \<Rightarrow> Inl e
              | Inr ds \<Rightarrow> Inr (map make_hit (zip (hd (documents results)) (zip ms ds)))))
      else Inr [])"

text \<open>
  \<open>search\<close>: the collection is the external vector index, given as the function from
  the query embedding and \<open>top_k\<close> to what \<open>collection.query\<close> does.
\<close>

definition search ::
  "call_env \<Rightarrow> (real list \<Rightarrow> int \<Rightarrow> exn + query_result) \<Rightarrow> embedder \<Rightarrow> string \<Rightarrow> int \<Rightarrow>
     (exn + search_hit list) \<times> embedder" where
  "search env collection_query svc query top_k =
     (case generate_embedding env svc of
        (Inl e, svc', invoked) \<Rightarrow> (Inl e, svc')
      | (Inr query_embedding, svc', invoked) \<Rightarrow>
          (case collection_query query_embedding top_k of
             Inl e \<Rightarrow> (Inl e, svc')
           | Inr results \<Rightarrow> (format_results results, svc')))"

section \<open>Persisted files\<close>

text \<open>
  A file on disk is missing, holds a complete serialisation of a value, or holds the
  truncated output of a write that failed part-way.  Opening a file with mode \<open>'w'\<close>
  truncates it; \<open>json.dump\<close> then writes the value.  One attempt to write either
  completes, fails at \<open>open\<close> (nothing is touched), or fails during the dump.
\<close>

datatype 'a disk_file = Missing | Complete 'a | Partial

datatype dump_outcome = Dump_ok | Open_raises | Dump_raises

section \<open>Feedback (\<^verbatim>\<open>backend/services/feedback_service.py\<close>)\<close>

record FeedbackEntry =
  feedback_id :: int
  fb_query_id :: string
  rating :: int
  feedback_text :: "string option"
  fb_query :: "string option"
  fb_answer :: "string option"
  fb_confidence :: "real option"
  timestamp :: string

text \<open>
  The service: the list \<open>feedback_data\<close> in memory, the file at \<open>storage_path\<close> and
  the file at \<open>storage_path.with_suffix('.tmp')\<close>.
\<close>

record FeedbackService =
  feedback_data :: "FeedbackEntry list"
  storage_file :: "FeedbackEntry list disk_file"
  temp_file :: "FeedbackEntry list disk_file"

text \<open>
  \<open>_save_feedback\<close>: dump to the temporary file, then \<open>temp_path.replace(storage_path)\<close>.
  Every exception is caught and turned into the result \<open>False\<close>.
\<close>

definition save_feedback :: "dump_outcome \<Rightarrow> bool \<Rightarrow> FeedbackService \<Rightarrow> bool \<times> FeedbackService" where
  "save_feedback dump replace_raises svc =
     (case dump of
        Open_raises \<Rightarrow> (False, svc)
      | Dump_raises \<Rightarrow> (False, svc\<lparr>temp_file := Partial\<rparr>)
      | Dump_ok \<Rightarrow>
          if replace_raises then (False, svc\<lparr>temp_file := Complete (feedback_data svc)\<rparr>)
          else (True, svc\<lparr>storage_file := Complete (feedback_data svc), temp_file := Missing\<rparr>))"

text \<open>The \<open>rating\<close> argument: \<open>isinstance(rating, int)\<close> holds for \<open>Int_rating\<close> only.\<close>

datatype rating_arg = Int_rating int | Non_int_rating string

text \<open>\<open>store_feedback\<close>; \<open>now\<close> is \<open>datetime.now().isoformat()\<close>.\<close>

definition store_feedback ::
  "dump_outcome \<Rightarrow> bool \<Rightarrow> string \<Rightarrow> FeedbackService \<Rightarrow> string \<Rightarrow> rating_arg \<Rightarrow> string option \<Rightarrow>
     string option \<Rightarrow> string option \<Rightarrow> real option \<Rightarrow> (exn + FeedbackEntry) \<times> FeedbackService" where
  "store_feedback dump replace_raises now svc qid rating_v ftext q a c =
     (case rating_v of
        Non_int_rating repr \<Rightarrow>
          (Inl (ValueError (''Rating must be an integer between 1 and 5, got: '' @ repr)), svc)
      | Int_rating r \<Rightarrow>
          if r < 1 \<or> 5 < r
          then (Inl (ValueError (''Rating must be an integer between 1 and 5, got: '' @ str_int r)), svc)
          else
            let feedback_entry =
                  \<lparr>feedback_id = int (length (feedback_data svc)) + 1,
                   fb_query_id = qid,
                   rating = r,
                   feedback_text = ftext,
                   fb_query = q,
                   fb_answer = a,
                   fb_confidence = c,
                   timestamp = now\<rparr>;
                appended = svc\<lparr>feedback_data := feedback_data svc @ [feedback_entry]\<rparr>
            in (case save_feedback dump replace_raises appended of
                  (True, saved) \<Rightarrow> (Inr feedback_entry, saved)
                | (False, unsaved) \<Rightarrow>
                    (Inl (GenericException ''Failed to save feedback to file''),
                     unsaved\<lparr>feedback_data := butlast (feedback_data unsaved)\<rparr>)))"

text \<open>\<open>delete_feedback\<close>: the result of \<open>_save_feedback\<close> is not looked at.\<close>

definition delete_feedback ::
  "dump_outcome \<Rightarrow> bool \<Rightarrow> FeedbackService \<Rightarrow> int \<Rightarrow> bool \<times> FeedbackService" where
  "delete_feedback dump replace_raises svc fid =
     (let initial_length = length (feedback_data svc);
          filtered = svc\<lparr>feedback_data := filter (\<lambda>f. feedback_id f \<noteq> fid) (feedback_data svc)\<rparr>
      in if length (feedback_data filtered) < initial_length
         then (True, snd (save_feedback dump replace_raises filtered))
         else (False, filtered))"

text \<open>
  \<open>Counter(words).most_common(3)\<close>: the distinct words in order of first occurrence
  with their counts, sorted by decreasing count (a stable sort), the first three.
\<close>

definition most_common :: "nat \<Rightarrow> string list \<Rightarrow> (string \<times> nat) list" where
  "most_common n words =
     take n (sort_key (\<lambda>wc. - int (snd wc))
       (map (\<lambda>w. (w, count_list words w)) (rev (remdups (rev words)))))"

definition default_suggestion :: string where
  "default_suggestion = ''System is performing well - keep the knowledge base updated''"

text \<open>\<open>_generate_suggestions\<close>\<close>

definition generate_suggestions :: "FeedbackEntry list \<Rightarrow> string list" where
  "generate_suggestions low_rated =
     (let suggestions =
        (if 0 < length low_rated then
           (let confidences = List.map_filter fb_confidence low_rated;
                s1 = (if confidences \<noteq> [] then
                        (let avg_confidence = sum_list confidences / real (length confidences)
                         in if avg_confidence < 4 / 10
                            then [''Low confidence detected in poor answers - upload more relevant documents'']
                            else if 7 / 10 < avg_confidence
                            then [''High confidence but low ratings - consider improving LLM prompts or using a better model'']
                            else [])
                      else []);
                s2 = (if 3 < length low_rated
                      then [''Multiple low-rated answers ('' @ str_nat (length low_rated) @
                            '') - review knowledge base coverage'']
                      else []);
                low_rated_queries =
                  map lower (filter (\<lambda>q. q \<noteq> []) (List.map_filter fb_query low_rated));
                s3 = (if low_rated_queries \<noteq> [] then
                        (let words = concat (map split_ws low_rated_queries);
                             common_words = most_common 3 words;
                             topics = map fst (filter (\<lambda>wc. 1 < snd wc \<and> 3 < length (fst wc))
                                                 common_words)
                         in if topics \<noteq> []
                            then [''Common topics in low-rated queries: '' @ join '', '' topics @
                                  '' - consider adding documents on these topics'']
                            else [])
                      else [])
            in s1 @ s2 @ s3)
         else [])
      in if suggestions \<noteq> [] then suggestions else [default_suggestion])"

record feedback_stats =
  total_feedback :: nat
  average_rating :: real
  rating_distribution :: "(string \<times> nat) list"
  low_rated_count :: nat
  high_rated_count :: "nat option"
  suggestions :: "string list"

text \<open>
  \<open>get_feedback_stats\<close>; \<open>round(x, 2)\<close> is the nearest hundredth, ties to even.  The
  result for an empty history has no key \<open>high_rated_count\<close>.
\<close>

definition get_feedback_stats :: "FeedbackService \<Rightarrow> feedback_stats" where
  "get_feedback_stats svc =
     (if feedback_data svc = [] then
        \<lparr>total_feedback = 0,
         average_rating = 0,
         rating_distribution = map (\<lambda>i. (str_nat i, 0)) [1, 2, 3, 4, 5],
         low_rated_count = 0,
         high_rated_count = None,
         suggestions = []\<rparr>
      else
        let ratings = map rating (feedback_data svc);
            avg_rating = real_of_int (sum_list ratings) / real (length ratings);
            rating_dist = map (\<lambda>i. (str_nat i, count_list ratings (int i))) [1, 2, 3, 4, 5];
            low_rated = filter (\<lambda>f. rating f \<le> 2) (feedback_data svc)
        in \<lparr>total_feedback = length (feedback_data svc),
            average_rating = real_of_int (round_half_even (avg_rating * 100)) / 100,
            rating_distribution = rating_dist,
            low_rated_count = length low_rated,
            high_rated_count = Some (length (filter (\<lambda>f. 4 \<le> rating f) (feedback_data svc))),
            suggestions = generate_suggestions low_rated\<rparr>)"

section \<open>Document metadata (\<^verbatim>\<open>backend/services/document_service.py\<close>)\<close>

record document_entry =
  document_id :: string
  filename :: string
  upload_date :: string
  num_chunks :: nat
  file_size :: nat
  file_path :: string

text \<open>
  The service: the dict \<open>metadata\<close> in memory (keys in insertion order) and the file
  \<open>metadata.json\<close>.
\<close>

record DocumentService =
  metadata :: "(string \<times> document_entry) list"
  metadata_file :: "(string \<times> document_entry) list disk_file"

text \<open>
  \<open>_save_metadata\<close>: \<open>open(self.metadata_file, 'w')\<close> on the live file, then the dump.
  The exception is printed and not raised again; nothing is returned.
\<close>

definition save_metadata :: "dump_outcome \<Rightarrow> DocumentService \<Rightarrow> DocumentService" where
  "save_metadata dump svc =
     (case dump of
        Open_raises \<Rightarrow> svc
      | Dump_raises \<Rightarrow> svc\<lparr>metadata_file := Partial\<rparr>
      | Dump_ok \<Rightarrow> svc\<lparr>metadata_file := Complete (metadata svc)\<rparr>)"

text \<open>\<open>metadata[k] = v\<close> and \<open>del metadata[k]\<close> on an insertion-ordered dict.\<close>

fun dict_set :: "(string \<times> 'v) list \<Rightarrow> string \<Rightarrow> 'v \<Rightarrow> (string \<times> 'v) list" where
  "dict_set [] k v = [(k, v)]"
| "dict_set ((k', v') # kvs) k v =
     (if k' = k then (k, v) # kvs else (k', v') # dict_set kvs k v)"

definition dict_del :: "(string \<times> 'v) list \<Rightarrow> string \<Rightarrow> (string \<times> 'v) list" where
  "dict_del kvs k = filter (\<lambda>kv. fst kv \<noteq> k) kvs"

text \<open>
  \<open>delete_document\<close>; removing the directory is an effect outside the model, given by
  whether \<open>shutil.rmtree\<close> raises.
\<close>

definition delete_document ::
  "bool \<Rightarrow> dump_outcome \<Rightarrow> DocumentService \<Rightarrow> string \<Rightarrow> bool \<times> DocumentService" where
  "delete_document rmtree_raises dump svc did =
     (if did \<in> set (map fst (metadata svc)) then
        (if rmtree_raises then (False, svc)
         else (True, save_metadata dump (svc\<lparr>metadata := dict_del (metadata svc) did\<rparr>)))
      else (False, svc))"

text \<open>
  \<open>save_and_process\<close>.  Saving the upload and loading and splitting it are effects
  outside the model: \<open>saved\<close> is what \<open>save_file\<close> does (the new document id, the path
  and the size of the file), \<open>processed\<close> what \<open>process_document\<close> does (the number of
  chunks).  When \<open>process_document\<close> raises, the clean-up calls \<open>delete_document\<close> for
  an id that is not yet in \<open>metadata\<close> and the exception is raised again.
\<close>

definition save_and_process ::
  "(exn + string \<times> string \<times> nat) \<Rightarrow> (exn + nat) \<Rightarrow> string \<Rightarrow> bool \<Rightarrow> dump_outcome \<Rightarrow>
     DocumentService \<Rightarrow> string \<Rightarrow> (exn + string \<times> nat) \<times> DocumentService" where
  "save_and_process saved processed now rmtree_raises dump svc fname =
     (case saved of
        Inl e \<Rightarrow> (Inl e, svc)
      | Inr (did, path, nbytes) \<Rightarrow>
          (case processed of
             Inl e \<Rightarrow> (Inl e, snd (delete_document rmtree_raises dump svc did))
           | Inr n \<Rightarrow>
               (Inr (did, n),
                save_metadata dump
                  (svc\<lparr>metadata := dict_set (metadata svc) did
                     \<lparr>document_id = did, filename = fname, upload_date = now,
                      num_chunks = n, file_size = nbytes, file_path = path\<rparr>\<rparr>))))"

section \<open>The rule-based result, restated\<close>

text \<open>
  Definitions used to state what the rule-based provider returns; they are not functions
  of the source.  \<open>line_relevance\<close> is the number one line of the context text adds to the
  relevance sum (none when the line adds nothing), \<open>cited_relevances\<close> collects these
  numbers over all lines, and \<open>mean\<close> of the empty list is 0, as the loop leaves
  \<open>avg_relevance\<close> at 0.0 when \<open>relevance_count\<close> is 0.  \<open>based_on\<close> and \<open>hedge\<close> are the
  two answer texts, \<open>generic_suggestion\<close> the suggestion attached to an incomplete
  answer, and \<open>rule_based_fields\<close> the returned dict as a function of the confidence.
  \<open>raw_of_suggestion\<close> reads a validated suggestion back as the dict it was built from.
\<close>

definition raw_of_suggestion :: "EnrichmentSuggestion \<Rightarrow> raw_suggestion" where
  "raw_of_suggestion v =
     \<lparr>s_missing_topic = Some (missing_topic v),
      s_suggested_action = Some (suggested_action v),
      s_priority = Some (priority v)\<rparr>"

definition mean :: "real list \<Rightarrow> real" where
  "mean xs = (if xs = [] then 0 else sum_list xs / real (length xs))"

definition line_relevance :: "string \<Rightarrow> real option" where
  "line_relevance line =
     (if startswith line ''[Source'' \<and> str_contains line ''Relevance:'' then
        (case index (split line '': '') 1 of
           Inl e \<Rightarrow> None
         | Inr p \<Rightarrow>
             (case index (split line ''Relevance: '') 1 of
                Inl e \<Rightarrow> None
              | Inr r \<Rightarrow> float (hd (split r '')''))))
      else None)"

definition cited_relevances :: "string \<Rightarrow> real list" where
  "cited_relevances context_text = List.map_filter line_relevance (split context_text [nl])"

definition hedge :: "string \<Rightarrow> string" where
  "hedge query =
     ''I found some information, but it may not be highly relevant to: '' @
     [apostrophe] @ query @ [apostrophe]"

definition generic_suggestion :: "string \<Rightarrow> raw_suggestion" where
  "generic_suggestion query =
     \<lparr>s_missing_topic = Some query,
      s_suggested_action = Some ''Upload more detailed documents about this specific topic'',
      s_priority = Some ''medium''\<rparr>"

definition based_on :: "string \<Rightarrow> string" where
  "based_on ctx =
     ''Based on the available documents:'' @ [nl, nl] @ take 800 ctx @
     (if 800 < length ctx
      then ''...'' @ [nl, nl] @ ''(More information available in source documents)''
      else [])"

definition rule_based_fields :: "string \<Rightarrow> string \<Rightarrow> real \<Rightarrow> string list \<Rightarrow> string \<Rightarrow> raw_result" where
  "rule_based_fields ctx q c srcs why =
     \<lparr>r_answer = Some (if 4 / 10 < c then based_on ctx else hedge q),
      r_confidence = Some c,
      r_sources_used = Some srcs,
      r_is_complete = Some (1 / 2 < c),
      r_missing_information =
        (if 1 / 2 < c then None else Some [''More comprehensive information on this topic'']),
      r_enrichment_suggestions = (if 1 / 2 < c then None else Some [generic_suggestion q]),
      r_reasoning = Some why\<rparr>"

section \<open>Example inputs\<close>

definition example_hit :: "real \<Rightarrow> search_hit" where
  "example_hit r =
     \<lparr>content = ''Refunds take 5 days'', source = ''policy.pdf'', relevance_score = r,
      chunk_id = ''0'', doc_id = ''doc-1'', page = ''3''\<rparr>"

definition overclaiming_reply :: raw_result where
  "overclaiming_reply =
     \<lparr>r_answer = Some ''Refunds take 5 days.'',
      r_confidence = Some (9 / 10),
      r_sources_used = Some [''policy.pdf''],
      r_is_complete = Some True,
      r_missing_information = Some [''Refund fees''],
      r_enrichment_suggestions = Some
        [\<lparr>s_missing_topic = Some ''Refund fees'',
          s_suggested_action = Some ''Upload the fee schedule'',
          s_priority = Some ''high''\<rparr>],
      r_reasoning = Some ''The policy covers the timing only.''\<rparr>"






definition example_entry :: "int \<Rightarrow> int \<Rightarrow> FeedbackEntry" where
  "example_entry fid r =
     \<lparr>feedback_id = fid, fb_query_id = ''q-1'', rating = r, feedback_text = None,
      fb_query = None, fb_answer = None, fb_confidence = None, timestamp = ''2025-01-01T00:00:00''\<rparr>"

definition empty_feedback :: FeedbackService where
  "empty_feedback = \<lparr>feedback_data = [], storage_file = Missing, temp_file = Missing\<rparr>"

definition store_ok :: "FeedbackService \<Rightarrow> int \<Rightarrow> FeedbackService" where
  "store_ok svc r =
     snd (store_feedback Dump_ok False ''2025-01-01T00:00:00'' svc ''q-1'' (Int_rating r)
            None None None None)"

definition empty_documents :: DocumentService where
  "empty_documents = \<lparr>metadata = [], metadata_file = Complete []\<rparr>"

definition remote_up :: call_env where
  "remote_up = \<lparr>remote_reply = Inr [1, 0], local_init = None, local_encode = Inr [0, 1]\<rparr>"

definition network_down :: call_env where
  "network_down =
     \<lparr>remote_reply = Inl (GenericException ''connection error''),
      local_init = Some (GenericException ''model download failed''),
      local_encode = Inr [0, 1]\<rparr>"

definition remote_embedder :: embedder where
  "remote_embedder = \<lparr>use_openai = True, openai_client = True, has_embedding_model = False\<rparr>"

section \<open>Properties of the built-ins\<close>

lemma split_from_nonempty: "split_from sep skip cur s \<noteq> []"
  by (induction s arbitrary: skip cur) auto

section \<open>The rule-based provider\<close>

text \<open>
  The loop over the lines adds exactly the numbers \<open>line_relevance\<close> names, and counts
  them.
\<close>

lemma scan_line_relevance:
  assumes "scan_line line (srcs, s, n) = (srcs', s', n')"
  shows "case line_relevance line of
           None \<Rightarrow> s' = s \<and> n' = n
         | Some v \<Rightarrow> s' = s + v \<and> n' = n + 1"
  using assms
  by (auto simp: scan_line_def line_relevance_def Let_def
      split: if_splits sum.splits option.splits)

lemma fold_scan_line:
  assumes "fold scan_line lines (srcs, s, n) = (srcs', s', n')"
  shows "s' = s + sum_list (List.map_filter line_relevance lines) \<and>
         n' = n + length (List.map_filter line_relevance lines)"
  using assms
proof (induction lines arbitrary: srcs s n)
  case Nil
  then show ?case by (simp add: List.map_filter_simps)
next
  case (Cons line lines)
  obtain srcs1 s1 n1 where st: "scan_line line (srcs, s, n) = (srcs1, s1, n1)"
    by (cases "scan_line line (srcs, s, n)") auto
  from Cons.prems st have "fold scan_line lines (srcs1, s1, n1) = (srcs', s', n')"
    by simp
  from Cons.IH [OF this] scan_line_relevance [OF st] show ?case
    by (auto simp: List.map_filter_simps split: option.splits)
qed

text \<open>
  With the result of the loop at hand, the dict built from a context text is
  \<open>rule_based_fields\<close> at the capped mean.
\<close>

lemma context_result_unfold:
  assumes f: "fold scan_line (split ctx [nl]) ([], 0, 0) = (srcs, s, n)"
    and a: "a = (if 0 < n then s / real n else s)"
    and c: "c = min a (65 / 100)"
  shows "context_result ctx q =
     rule_based_fields ctx q c srcs
       (''Rule-based response (relevance: '' @ format_2f a @
        ''). Configure an LLM provider for better results.'')"
  apply (simp only: context_result_def f prod.case Let_def)
  apply (simp only: a [symmetric])
  apply (simp only: c [symmetric])
  apply (simp add: rule_based_fields_def based_on_def hedge_def generic_suggestion_def)
  done

lemma context_result_fields:
  "\<exists>srcs why. context_result ctx q =
     rule_based_fields ctx q (min (mean (cited_relevances ctx)) (65 / 100)) srcs why"
proof -
  obtain srcs s n where f: "fold scan_line (split ctx [nl]) ([], 0, 0) = (srcs, s, n)"
    by (cases "fold scan_line (split ctx [nl]) ([], 0, 0)") auto
  from fold_scan_line [OF f]
  have m: "mean (cited_relevances ctx) = (if 0 < n then s / real n else s)"
    by (auto simp: mean_def cited_relevances_def)
  from context_result_unfold [OF f m refl, of q] show ?thesis
    by blast
qed

lemma fallback_with_context:
  assumes "\<not> str_contains (context_text_of um) ''No relevant context found''"
  shows "\<exists>srcs why. FallbackProvider_generate_completion sp um =
           rule_based_fields (context_text_of um) (query_of um)
             (min (mean (cited_relevances (context_text_of um))) (65 / 100)) srcs why"
proof -
  from assms have "FallbackProvider_generate_completion sp um =
      context_result (context_text_of um) (query_of um)"
    by (simp add: FallbackProvider_generate_completion_def Let_def)
  with context_result_fields [of "context_text_of um" "query_of um"] show ?thesis
    by (simp only:)
qed

lemma fallback_without_context:
  assumes "str_contains (context_text_of um) ''No relevant context found''"
  shows "FallbackProvider_generate_completion sp um = no_context_result (query_of um)"
  using assms by (simp add: FallbackProvider_generate_completion_def Let_def)

lemma rule_based_eval:
  assumes "\<not> str_contains (context_text_of um) ''No relevant context found''"
    and "cited_relevances (context_text_of um) = rels"
    and "min (mean rels) (65 / 100) = c"
  shows "\<exists>srcs why. FallbackProvider_generate_completion sp um =
           rule_based_fields (context_text_of um) (query_of um) c srcs why"
  using fallback_with_context [OF assms(1), of sp] assms(2,3) by (simp only:)

lemma mean_single: "mean [x] = x"
  by (simp add: mean_def)

text \<open>A rule-based result that says it is complete carries no gap and no suggestion.\<close>

lemma fallback_complete_has_no_gaps:
  assumes "r_is_complete (FallbackProvider_generate_completion sp um) = Some True"
  shows "r_missing_information (FallbackProvider_generate_completion sp um) = None \<and>
         r_enrichment_suggestions (FallbackProvider_generate_completion sp um) = None"
proof (cases "str_contains (context_text_of um) ''No relevant context found''")
  case True
  from assms show ?thesis
    by (simp add: fallback_without_context [OF True] no_context_result_def)
next
  case False
  from fallback_with_context [OF False, of sp] obtain srcs why where
    "FallbackProvider_generate_completion sp um =
       rule_based_fields (context_text_of um) (query_of um)
         (min (mean (cited_relevances (context_text_of um))) (65 / 100)) srcs why"
    by blast
  with assms show ?thesis
    by (simp add: rule_based_fields_def)
qed

text \<open>
  For every message the confidence is at most 0.65 and the answer is complete exactly
  when the confidence exceeds 0.5.
\<close>

lemma fallback_complete_iff:
  "\<exists>c. r_confidence (FallbackProvider_generate_completion sp um) = Some c \<and>
       c \<le> 65 / 100 \<and>
       r_is_complete (FallbackProvider_generate_completion sp um) = Some (1 / 2 < c)"
proof (cases "str_contains (context_text_of um) ''No relevant context found''")
  case True
  show ?thesis
    by (intro exI [of _ "1 / 10"]) (simp add: fallback_without_context [OF True] no_context_result_def)
next
  case False
  define c where "c = min (mean (cited_relevances (context_text_of um))) (65 / 100)"
  have le: "c \<le> 65 / 100"
    by (simp add: c_def)
  from fallback_with_context [OF False, of sp] obtain srcs why where
    "FallbackProvider_generate_completion sp um =
       rule_based_fields (context_text_of um) (query_of um) c srcs why"
    unfolding c_def by blast
  with le show ?thesis
    by (intro exI [of _ c]) (simp add: rule_based_fields_def)
qed

text \<open>The example inputs, evaluated.\<close>

lemma example_high:
  "\<not> str_contains (context_text_of (user_message_of ''refunds?'' [example_hit (9 / 10)]))
      ''No relevant context found''"
  "cited_relevances (context_text_of (user_message_of ''refunds?'' [example_hit (9 / 10)])) =
     [9 / 10]"
  by code_simp+



lemma example_low:
  "\<not> str_contains (context_text_of (user_message_of ''refunds?'' [example_hit (3 / 10)]))
      ''No relevant context found''"
  "cited_relevances (context_text_of (user_message_of ''refunds?'' [example_hit (3 / 10)])) =
     [3 / 10]"
  "query_of (user_message_of ''refunds?'' [example_hit (3 / 10)]) = ''refunds?''"
  "\<not> str_contains (hedge ''refunds?'')
      (take 1 (context_text_of (user_message_of ''refunds?'' [example_hit (3 / 10)])))"
  by code_simp+

lemma example_delimiter:
  "\<not> str_contains (context_text_of (user_message_of (''Context:'' @ [nl] @ ''refunds'') []))
      ''No relevant context found''"
  "cited_relevances (context_text_of (user_message_of (''Context:'' @ [nl] @ ''refunds'') [])) = []"
  "query_of (user_message_of (''Context:'' @ [nl] @ ''refunds'') []) =
     ''Context:'' @ [nl] @ ''refunds''"
  by code_simp+

lemma example_empty:
  "str_contains (context_text_of (user_message_of ''refunds?'' []))
      ''No relevant context found''"
  "query_of (user_message_of ''refunds?'' []) = ''refunds?''"
  by code_simp+

section \<open>Building the verdict\<close>

lemma new_EnrichmentSuggestion_Inr:
  "new_EnrichmentSuggestion s = Inr v \<Longrightarrow> raw_of_suggestion v = s"
  by (cases s) (auto simp: new_EnrichmentSuggestion_def raw_of_suggestion_def
      split: option.splits if_splits)

lemma new_EnrichmentSuggestions_Inr:
  "new_EnrichmentSuggestions ss = Inr vs \<Longrightarrow> map raw_of_suggestion vs = ss"
  by (induction ss arbitrary: vs)
     (auto split: sum.splits dest: new_EnrichmentSuggestion_Inr)

lemma build_response_Inr:
  assumes "build_response uid raw = Inr resp"
  shows "query_id resp = Some uid \<and>
         r_answer raw = Some (answer resp) \<and>
         r_confidence raw = Some (confidence resp) \<and>
         r_sources_used raw = Some (sources_used resp) \<and>
         r_is_complete raw = Some (is_complete resp) \<and>
         r_reasoning raw = Some (reasoning resp) \<and>
         missing_information resp = r_missing_information raw \<and>
         (case enrichment_suggestions resp of
            None \<Rightarrow> r_enrichment_suggestions raw = None \<or> r_enrichment_suggestions raw = Some []
          | Some vs \<Rightarrow> vs \<noteq> [] \<and> r_enrichment_suggestions raw = Some (map raw_of_suggestion vs))"
  using assms
  by (auto simp: build_response_def new_AnswerResponse_def
      split: option.splits sum.splits if_splits dest: new_EnrichmentSuggestions_Inr)

lemma build_rule_based:
  "build_response uid (rule_based_fields ctx q c srcs why) =
     (if 0 \<le> c \<and> c \<le> 1
      then Inr \<lparr>query_id = Some uid,
                answer = (if 4 / 10 < c then based_on ctx else hedge q),
                confidence = c,
                sources_used = srcs,
                is_complete = (1 / 2 < c),
                missing_information =
                  (if 1 / 2 < c then None
                   else Some [''More comprehensive information on this topic'']),
                enrichment_suggestions =
                  (if 1 / 2 < c then None
                   else Some [\<lparr>missing_topic = q,
                     suggested_action = ''Upload more detailed documents about this specific topic'',
                     priority = ''medium''\<rparr>]),
                reasoning = why\<rparr>
      else Inl (ValidationError ''AnswerResponse''))"
  by (simp add: build_response_def rule_based_fields_def generic_suggestion_def
      new_EnrichmentSuggestion_def new_AnswerResponse_def)

lemma build_no_context:
  "build_response uid (no_context_result q) =
     Inr \<lparr>query_id = Some uid,
          answer = the (r_answer (no_context_result q)),
          confidence = 1 / 10,
          sources_used = [],
          is_complete = False,
          missing_information = Some [''Information about: '' @ q],
          enrichment_suggestions = Some
            [\<lparr>missing_topic = q,
              suggested_action = ''Upload documents containing information about '' @ q,
              priority = ''high''\<rparr>],
          reasoning = ''No relevant documents found in the knowledge base.''\<rparr>"
  by (simp add: build_response_def no_context_result_def new_EnrichmentSuggestion_def
      new_AnswerResponse_def)

lemma provider_result_fallback:
  assumes "active = FallbackProvider \<or> isl (generate_completion active sp um)"
  shows "provider_result active sp um = FallbackProvider_generate_completion sp um"
  using assms by (auto simp: provider_result_def isl_def split: sum.splits)

lemma generate_answer_rule_based:
  assumes fb: "active = FallbackProvider \<or> isl (generate_completion active sp (user_message_of q hits))"
    and nc: "\<not> str_contains (context_text_of (user_message_of q hits)) ''No relevant context found''"
    and c: "min (mean (cited_relevances (context_text_of (user_message_of q hits)))) (65 / 100) = c"
  shows "\<exists>srcs why.
           FallbackProvider_generate_completion sp (user_message_of q hits) =
             rule_based_fields (context_text_of (user_message_of q hits))
               (query_of (user_message_of q hits)) c srcs why \<and>
           generate_answer active sp uid q hits =
             build_response uid
               (rule_based_fields (context_text_of (user_message_of q hits))
                  (query_of (user_message_of q hits)) c srcs why)"
proof -
  from fallback_with_context [OF nc, of sp] c obtain srcs why where
    e: "FallbackProvider_generate_completion sp (user_message_of q hits) =
         rule_based_fields (context_text_of (user_message_of q hits))
           (query_of (user_message_of q hits)) c srcs why"
    by auto
  have "generate_answer active sp uid q hits =
      build_response uid (FallbackProvider_generate_completion sp (user_message_of q hits))"
    by (simp only: generate_answer_def provider_result_fallback [OF fb])
  with e show ?thesis
    by (simp only:) blast
qed

text \<open>
  Claim C1, as amended.  \<open>generate_answer\<close> strips nothing: whenever it returns a
  verdict, \<open>is_complete\<close> and \<open>missing_information\<close> are the provider's, and the
  suggestions are the provider's unless the provider gave none or an empty list.  When
  the result is the rule-based provider's (it is the active provider, or the active
  provider raised), a verdict with \<open>is_complete = True\<close> has neither missing
  information nor suggestions.
\<close>

theorem C1_provider_fields_pass_through:
  assumes "generate_answer active sp uid q hits = Inr resp"
  shows "r_is_complete (provider_result active sp (user_message_of q hits)) =
           Some (is_complete resp) \<and>
         missing_information resp =
           r_missing_information (provider_result active sp (user_message_of q hits)) \<and>
         (case enrichment_suggestions resp of
            None \<Rightarrow>
              r_enrichment_suggestions (provider_result active sp (user_message_of q hits)) = None \<or>
              r_enrichment_suggestions (provider_result active sp (user_message_of q hits)) = Some []
          | Some vs \<Rightarrow>
              r_enrichment_suggestions (provider_result active sp (user_message_of q hits)) =
                Some (map raw_of_suggestion vs)) \<and>
         ((active = FallbackProvider \<or>
           isl (generate_completion active sp (user_message_of q hits))) \<longrightarrow>
          is_complete resp \<longrightarrow>
          missing_information resp = None \<and> enrichment_suggestions resp = None)"
proof -
  let ?um = "user_message_of q hits"
  let ?raw = "provider_result active sp ?um"
  from assms have b: "build_response uid ?raw = Inr resp"
    by (simp add: generate_answer_def)
  note f = build_response_Inr [OF b]
  have pass: "r_is_complete ?raw = Some (is_complete resp)"
    "missing_information resp = r_missing_information ?raw"
    using f by simp_all
  have sugg: "case enrichment_suggestions resp of
            None \<Rightarrow> r_enrichment_suggestions ?raw = None \<or> r_enrichment_suggestions ?raw = Some []
          | Some vs \<Rightarrow> r_enrichment_suggestions ?raw = Some (map raw_of_suggestion vs)"
    using f by (auto split: option.splits)
  have inv: "missing_information resp = None \<and> enrichment_suggestions resp = None"
    if fb: "active = FallbackProvider \<or> isl (generate_completion active sp ?um)"
      and c: "is_complete resp"
  proof -
    have eq: "?raw = FallbackProvider_generate_completion sp ?um"
      by (rule provider_result_fallback [OF fb])
    from pass(1) c have "r_is_complete (FallbackProvider_generate_completion sp ?um) = Some True"
      by (simp add: eq)
    from fallback_complete_has_no_gaps [OF this] pass(2) sugg show ?thesis
      by (auto simp: eq split: option.splits)
  qed
  from pass sugg inv show ?thesis
    by blast
qed

theorem C1_witness:
  "\<not> isl (generate_answer FallbackProvider ''system'' ''id-1'' ''refunds?'' [example_hit (9 / 10)]) \<and>
   is_complete (projr (generate_answer FallbackProvider ''system'' ''id-1'' ''refunds?''
      [example_hit (9 / 10)])) \<and>
   missing_information (projr (generate_answer FallbackProvider ''system'' ''id-1'' ''refunds?''
      [example_hit (9 / 10)])) = None \<and>
   enrichment_suggestions (projr (generate_answer FallbackProvider ''system'' ''id-1'' ''refunds?''
      [example_hit (9 / 10)])) = None"
proof -
  let ?out = "generate_answer FallbackProvider ''system'' ''id-1'' ''refunds?'' [example_hit (9 / 10)]"
  have c: "min (mean (cited_relevances (context_text_of
      (user_message_of ''refunds?'' [example_hit (9 / 10)])))) (65 / 100) = 65 / 100"
    by (simp add: example_high(2) mean_def)
  from generate_answer_rule_based [OF _ example_high(1) c, of FallbackProvider "''system''" "''id-1''"]
  obtain srcs why where
    "?out = build_response ''id-1''
       (rule_based_fields (context_text_of (user_message_of ''refunds?'' [example_hit (9 / 10)]))
          (query_of (user_message_of ''refunds?'' [example_hit (9 / 10)])) (65 / 100) srcs why)"
    by auto
  then have r: "\<not> isl ?out" and ic: "is_complete (projr ?out)"
    by (simp_all add: build_rule_based)
  from r have e: "?out = Inr (projr ?out)"
    by (cases ?out) simp_all
  from C1_provider_fields_pass_through [OF e] r ic show ?thesis
    by blast
qed

text \<open>
  A remote provider that reports a complete answer together with a gap and a
  suggestion: the verdict carries all three.
\<close>

theorem C1_counterexample:
  "generate_answer (RemoteProvider (\<lambda>sp um. Inr overclaiming_reply)) ''system'' ''id-1''
     ''refunds?'' [example_hit (9 / 10)] =
   Inr \<lparr>query_id = Some ''id-1'',
        answer = ''Refunds take 5 days.'',
        confidence = 9 / 10,
        sources_used = [''policy.pdf''],
        is_complete = True,
        missing_information = Some [''Refund fees''],
        enrichment_suggestions = Some
          [\<lparr>missing_topic = ''Refund fees'', suggested_action = ''Upload the fee schedule'',
            priority = ''high''\<rparr>],
        reasoning = ''The policy covers the timing only.''\<rparr>"
  by (simp add: generate_answer_def provider_result_def build_response_def overclaiming_reply_def
      new_EnrichmentSuggestion_def new_AnswerResponse_def)







text \<open>
  Claim C4 (empty context).  The provider takes the context text to be what follows the
  last \<open>Context:\<close> line of the message.  For an empty retrieval context and a query
  that itself contains such a line, the context text is the tail of the query, the phrase
  of the empty context is not in it, and the result has confidence 0 and one suggestion
  of priority medium.
\<close>

theorem C4_delimiter_in_query:
  "r_confidence (FallbackProvider_generate_completion ''system''
      (user_message_of (''Context:'' @ [nl] @ ''refunds'') [])) = Some 0 \<and>
   r_enrichment_suggestions (FallbackProvider_generate_completion ''system''
      (user_message_of (''Context:'' @ [nl] @ ''refunds'') [])) =
     Some [\<lparr>s_missing_topic = Some (''Context:'' @ [nl] @ ''refunds''),
            s_suggested_action = Some ''Upload more detailed documents about this specific topic'',
            s_priority = Some ''medium''\<rparr>]"
proof -
  have "min (mean []) (65 / 100) = (0 :: real)"
    by (simp add: mean_def)
  from rule_based_eval [OF example_delimiter(1) example_delimiter(2) this, of "''system''"]
  show ?thesis
    unfolding example_delimiter(3)
    by (auto simp: rule_based_fields_def generic_suggestion_def)
qed

text \<open>For a query without the delimiters the result is the one for an empty context.\<close>

lemma empty_context_plain_query:
  "generate_answer FallbackProvider ''system'' ''id-1'' ''refunds?'' [] =
     Inr \<lparr>query_id = Some ''id-1'',
          answer = the (r_answer (no_context_result ''refunds?'')),
          confidence = 1 / 10,
          sources_used = [],
          is_complete = False,
          missing_information = Some [''Information about: refunds?''],
          enrichment_suggestions = Some
            [\<lparr>missing_topic = ''refunds?'',
              suggested_action = ''Upload documents containing information about refunds?'',
              priority = ''high''\<rparr>],
          reasoning = ''No relevant documents found in the knowledge base.''\<rparr>"
  by (simp add: generate_answer_def provider_result_def
      fallback_without_context [OF example_empty(1)] example_empty(2) build_no_context)

text \<open>
  Claim C9, as amended.  For every message whose context text does not contain the
  phrase of the empty context and whose confidence is at most 0.4, the answer is the
  hedge naming the query and nothing else, the answer is not complete, and the gap and
  the generic suggestion (upload more detailed documents, priority medium) are attached.
\<close>

theorem C9_low_confidence_answer:
  assumes "\<not> str_contains (context_text_of um) ''No relevant context found''"
    and "r_confidence (FallbackProvider_generate_completion sp um) = Some c"
    and "c \<le> 4 / 10"
  shows "r_answer (FallbackProvider_generate_completion sp um) = Some (hedge (query_of um)) \<and>
         r_is_complete (FallbackProvider_generate_completion sp um) = Some False \<and>
         r_missing_information (FallbackProvider_generate_completion sp um) =
           Some [''More comprehensive information on this topic''] \<and>
         r_enrichment_suggestions (FallbackProvider_generate_completion sp um) =
           Some [generic_suggestion (query_of um)]"
proof -
  from fallback_with_context [OF assms(1), of sp] obtain srcs why where
    f: "FallbackProvider_generate_completion sp um =
       rule_based_fields (context_text_of um) (query_of um)
         (min (mean (cited_relevances (context_text_of um))) (65 / 100)) srcs why"
    by blast
  with assms(2) have "min (mean (cited_relevances (context_text_of um))) (65 / 100) = c"
    by (simp add: rule_based_fields_def)
  with f have "FallbackProvider_generate_completion sp um =
       rule_based_fields (context_text_of um) (query_of um) c srcs why"
    by (simp only:)
  with assms(3) show ?thesis
    by (simp add: rule_based_fields_def)
qed

theorem C9_witness:
  "\<not> str_contains (context_text_of (user_message_of ''refunds?'' [example_hit (3 / 10)]))
      ''No relevant context found'' \<and>
   (3 / 10 :: real) \<le> 4 / 10 \<and>
   r_confidence (FallbackProvider_generate_completion ''system''
      (user_message_of ''refunds?'' [example_hit (3 / 10)])) = Some (3 / 10) \<and>
   r_answer (FallbackProvider_generate_completion ''system''
      (user_message_of ''refunds?'' [example_hit (3 / 10)])) = Some (hedge ''refunds?'') \<and>
   r_enrichment_suggestions (FallbackProvider_generate_completion ''system''
      (user_message_of ''refunds?'' [example_hit (3 / 10)])) =
     Some [generic_suggestion ''refunds?'']"
proof -
  have "min (mean [3 / 10]) (65 / 100) = (3 / 10 :: real)"
    by (simp add: mean_single)
  from rule_based_eval [OF example_low(1) example_low(2) this, of "''system''"]
  have c: "r_confidence (FallbackProvider_generate_completion ''system''
      (user_message_of ''refunds?'' [example_hit (3 / 10)])) = Some (3 / 10)"
    by (auto simp: rule_based_fields_def)
  have le: "(3 / 10 :: real) \<le> 4 / 10"
    by simp
  from C9_low_confidence_answer [OF example_low(1) c le] c example_low(1) show ?thesis
    by (simp add: example_low(3))
qed

text \<open>
  At confidence 0.3 the answer is the hedge alone: not even the first character of the
  context text occurs in it.
\<close>

theorem C9_counterexample:
  "r_confidence (FallbackProvider_generate_completion ''system''
      (user_message_of ''refunds?'' [example_hit (3 / 10)])) = Some (3 / 10) \<and>
   r_answer (FallbackProvider_generate_completion ''system''
      (user_message_of ''refunds?'' [example_hit (3 / 10)])) = Some (hedge ''refunds?'') \<and>
   \<not> str_contains (hedge ''refunds?'')
      (take 1 (context_text_of (user_message_of ''refunds?'' [example_hit (3 / 10)])))"
proof -
  have "min (mean [3 / 10]) (65 / 100) = (3 / 10 :: real)"
    by (simp add: mean_single)
  from rule_based_eval [OF example_low(1) example_low(2) this, of "''system''"]
  have "r_confidence (FallbackProvider_generate_completion ''system''
      (user_message_of ''refunds?'' [example_hit (3 / 10)])) = Some (3 / 10)"
    "r_answer (FallbackProvider_generate_completion ''system''
      (user_message_of ''refunds?'' [example_hit (3 / 10)])) = Some (hedge ''refunds?'')"
    by (auto simp: rule_based_fields_def example_low(3))
  with example_low(4) show ?thesis
    by blast
qed

section \<open>Retrieval scores\<close>


text \<open>An answer of the index without documents gives the empty result.\<close>

lemma format_results_no_documents:
  assumes "documents results = [] \<or> hd (documents results) = []"
  shows "format_results results = Inr []"
  using assms by (auto simp: format_results_def)


text \<open>A failure of the embedding of the query, or of the call of the index, is raised by
  \<open>search\<close> unchanged.\<close>

lemma search_embedding_raises:
  assumes "fst (generate_embedding env svc) = Inl e"
  shows "fst (search env collection_query svc query top_k) = Inl e"
proof -
  obtain svc' inv where "generate_embedding env svc = (Inl e, svc', inv)"
    using assms by (cases "generate_embedding env svc") auto
  then show ?thesis
    by (simp add: search_def)
qed

lemma search_index_raises:
  assumes "fst (generate_embedding env svc) = Inr v"
    and "collection_query v top_k = Inl e"
  shows "fst (search env collection_query svc query top_k) = Inl e"
proof -
  obtain svc' inv where "generate_embedding env svc = (Inr v, svc', inv)"
    using assms(1) by (cases "generate_embedding env svc") auto
  with assms(2) show ?thesis
    by (simp add: search_def)
qed






section \<open>Feedback identifiers and persistence\<close>

text \<open>
  A submission whose rating is not an integer from 1 to 5 raises \<open>ValueError\<close> and
  leaves the service as it was.
\<close>

lemma store_feedback_rejects_rating:
  assumes "r < 1 \<or> 5 < r"
  shows "store_feedback dump rr now svc qid (Int_rating r) ftext q a c =
           (Inl (ValueError (''Rating must be an integer between 1 and 5, got: '' @ str_int r)), svc)"
  using assms by (simp add: store_feedback_def)

lemma store_feedback_rejects_non_int:
  "store_feedback dump rr now svc qid (Non_int_rating repr) ftext q a c =
     (Inl (ValueError (''Rating must be an integer between 1 and 5, got: '' @ repr)), svc)"
  by (simp add: store_feedback_def)

text \<open>
  When \<open>_save_feedback\<close> fails, \<open>store_feedback\<close> removes the entry it appended and
  raises; the stored file is untouched.
\<close>

lemma store_feedback_failed_save_rolls_back:
  assumes "1 \<le> r" "r \<le> 5" "dump \<noteq> Dump_ok \<or> rr"
  shows "fst (store_feedback dump rr now svc qid (Int_rating r) ftext q a c) =
           Inl (GenericException ''Failed to save feedback to file'') \<and>
         feedback_data (snd (store_feedback dump rr now svc qid (Int_rating r) ftext q a c)) =
           feedback_data svc \<and>
         storage_file (snd (store_feedback dump rr now svc qid (Int_rating r) ftext q a c)) =
           storage_file svc"
  using assms
  by (cases dump) (auto simp: store_feedback_def save_feedback_def Let_def)

text \<open>Deleting filters the list: the entries that remain keep their identifiers.\<close>

lemma delete_feedback_keeps_entries:
  "feedback_data (snd (delete_feedback dump rr svc fid)) =
     filter (\<lambda>f. feedback_id f \<noteq> fid) (feedback_data svc)"
  by (simp add: delete_feedback_def save_feedback_def Let_def split: dump_outcome.splits)

text \<open>
  Claim C6 (monotonic identifiers).  The identifier of a new entry is the length of the
  list plus one.  After two submissions (identifiers 1 and 2) and the deletion of
  entry 1, the next submission gets identifier 2 again: the history then holds two
  entries with the same identifier, and the new identifier is not greater than the ones
  assigned before.
\<close>

theorem C6_feedback_id_reused_after_delete:
  "map feedback_id
     (feedback_data
        (store_ok (snd (delete_feedback Dump_ok False
           (store_ok (store_ok empty_feedback 3) 3) 1)) 3)) = [2, 2]"
  by (simp add: store_ok_def empty_feedback_def store_feedback_def save_feedback_def
      delete_feedback_def Let_def)

text \<open>
  \<open>delete_feedback\<close> does not look at the result of \<open>_save_feedback\<close>: when the
  replace step fails it still returns \<open>True\<close>, the entry is gone from memory and the
  stored file still holds it.
\<close>

lemma delete_feedback_ignores_failed_save:
  "delete_feedback Dump_ok True
     \<lparr>feedback_data = [example_entry 1 3], storage_file = Complete [example_entry 1 3],
      temp_file = Missing\<rparr> 1 =
   (True, \<lparr>feedback_data = [], storage_file = Complete [example_entry 1 3],
      temp_file = Complete []\<rparr>)"
  by (simp add: delete_feedback_def save_feedback_def example_entry_def Let_def)

text \<open>
  Claim C7 (atomic replace and roll-back, for document metadata).  \<open>_save_metadata\<close>
  opens the live file for writing.  When the dump fails part-way during an upload, the
  live file is left truncated, the new entry stays in memory and \<open>save_and_process\<close>
  returns normally: nothing is rolled back and no error reaches the caller.
\<close>

theorem C7_metadata_written_in_place:
  "save_and_process (Inr (''doc-1'', ''/storage/doc-1/a.txt'', 10)) (Inr 3) ''2025-01-01T00:00:00''
     False Dump_raises empty_documents ''a.txt'' =
   (Inr (''doc-1'', 3),
    \<lparr>metadata = [(''doc-1'', \<lparr>document_id = ''doc-1'', filename = ''a.txt'',
        upload_date = ''2025-01-01T00:00:00'', num_chunks = 3, file_size = 10,
        file_path = ''/storage/doc-1/a.txt''\<rparr>)],
     metadata_file = Partial\<rparr>)"
  by (simp add: save_and_process_def save_metadata_def empty_documents_def)

section \<open>Feedback statistics\<close>

lemma generate_suggestions_Nil: "generate_suggestions [] = [default_suggestion]"
  by (simp add: generate_suggestions_def)

text \<open>
  Claim C10, as amended: for every non-empty feedback history without an entry rated 2
  or lower, the suggestions of the statistics are exactly the default message.
\<close>

theorem C10_default_message_when_history_nonempty:
  assumes "feedback_data svc \<noteq> []"
    and "list_all (\<lambda>f. 2 < rating f) (feedback_data svc)"
  shows "suggestions (get_feedback_stats svc) = [default_suggestion]"
proof -
  have "filter (\<lambda>f. rating f \<le> 2) (feedback_data svc) = []"
    using assms(2) by (induction "feedback_data svc") (auto simp: list_all_iff filter_empty_conv)
  with assms(1) show ?thesis
    by (simp add: get_feedback_stats_def Let_def generate_suggestions_Nil)
qed

theorem C10_witness:
  "feedback_data (store_ok empty_feedback 4) \<noteq> [] \<and>
   list_all (\<lambda>f. 2 < rating f) (feedback_data (store_ok empty_feedback 4)) \<and>
   suggestions (get_feedback_stats (store_ok empty_feedback 4)) = [default_suggestion]"
proof -
  have d: "feedback_data (store_ok empty_feedback 4) = [example_entry 1 4]"
    by (simp add: store_ok_def empty_feedback_def store_feedback_def save_feedback_def
        example_entry_def Let_def)
  have a: "feedback_data (store_ok empty_feedback 4) \<noteq> []"
    by (simp add: d)
  have b: "list_all (\<lambda>f. 2 < rating f) (feedback_data (store_ok empty_feedback 4))"
    by (simp add: d example_entry_def)
  from a b C10_default_message_when_history_nonempty [OF a b] show ?thesis
    by simp
qed

text \<open>
  The empty history has no entry rated 2 or lower, and its statistics carry an empty
  list of suggestions: the default message is not in it.
\<close>

theorem C10_counterexample:
  "list_all (\<lambda>f. 2 < rating f) (feedback_data empty_feedback) \<and>
   default_suggestion \<notin> set (suggestions (get_feedback_stats empty_feedback))"
  by (simp add: empty_feedback_def get_feedback_stats_def)

section \<open>Demotion of the embedder\<close>

text \<open>Once \<open>use_openai\<close> is false, no call invokes the remote endpoint or sets it again.\<close>

lemma local_stays_local:
  assumes "\<not> use_openai svc"
  shows "\<not> use_openai (fst (snd (generate_embedding env svc))) \<and>
         \<not> snd (snd (generate_embedding env svc))"
  using assms by (simp add: generate_embedding_def)

lemma local_calls_never_remote:
  "\<not> use_openai svc \<Longrightarrow> list_all (\<lambda>r. \<not> snd r) (embedding_calls envs svc)"
proof (induction envs arbitrary: svc)
  case Nil
  then show ?case by simp
next
  case (Cons env envs)
  obtain res svc' inv where g: "generate_embedding env svc = (res, svc', inv)"
    by (cases "generate_embedding env svc") auto
  from local_stays_local [OF Cons.prems, of env] g have "\<not> use_openai svc'" "\<not> inv"
    by simp_all
  with Cons.IH [of svc'] g show ?case by simp
qed

text \<open>
  A failed remote call clears \<open>use_openai\<close> when the local model is loaded already or
  loads now.
\<close>

lemma remote_failure_demotes:
  assumes "use_openai svc" "openai_client svc" "remote_reply env = Inl e"
    and "has_embedding_model svc \<or> local_init env = None"
  shows "\<not> use_openai (fst (snd (generate_embedding env svc)))"
  using assms by (auto simp: generate_embedding_def split: option.splits)

text \<open>
  The service as the constructor leaves it when the remote strategy is chosen: no local
  model has been loaded.
\<close>

lemma remote_embedder_constructed:
  "new_EmbeddingService (Some ''skt-key'') remote_up = Inr remote_embedder"
  by (simp add: new_EmbeddingService_def remote_up_def remote_embedder_def)

text \<open>
  Claim C8 (no remote call after a remote failure).  \<open>use_openai\<close> is cleared only
  after \<open>_init_sentence_transformers\<close> has returned.  When the remote call fails and
  loading the local model raises as well, the exception leaves the handler before the
  flag is cleared, and the next call invokes the remote endpoint again.
\<close>

theorem C8_remote_retried_after_failure:
  "embedding_calls [network_down, network_down] remote_embedder =
     [(Inl (GenericException ''model download failed''), True),
      (Inl (GenericException ''model download failed''), True)]"
  by (simp add: generate_embedding_def network_down_def remote_embedder_def)

end
